theory Spec2Isabelle
  imports Complex_Main "HOL-Library.Multiset"
begin

section \<open>DamageScan: the CSV processing worker\<close>

text \<open>
  A shallow embedding of the \<^verbatim>\<open>/api/csv/process\<close> handler of the DamageScan API
  worker and of the row validator it calls (\<^verbatim>\<open>validateCSVRow\<close>, the row loop of
  \<^verbatim>\<open>parseCSVContent\<close>, and the body of the handler from the parse result on).

  Conventions of the embedding:
  \<^item> A JavaScript \<^verbatim>\<open>number\<close> is modelled by an exact number: \<open>rat\<close> for measured
    quantities, rates and money, \<open>int\<close> for values the code only ever produces as
    integers (the results of \<^verbatim>\<open>Math.ceil\<close>, the literals 0 and 1, and the fields
    \<^verbatim>\<open>water_category\<close> and \<^verbatim>\<open>water_class\<close>, which the parser reads with
    \<^verbatim>\<open>parseInt(value) || 2\<close>). Arithmetic is exact: the rounding of IEEE-754 doubles,
    and the values NaN and Infinity, are not part of the model.
  \<^item> A row is the object built by \<^verbatim>\<open>parseCSVContent\<close> from one line: every required
    column is present (the header check guarantees it), numeric columns hold numbers
    (\<^verbatim>\<open>parseFloat(value) || 0\<close>), the others strings. Only the columns that the
    validator and the handler read are fields of the record.
  \<^item> Strings are lists of characters; \<^verbatim>\<open>trim\<close> and \<^verbatim>\<open>toLowerCase\<close> act on the
    ASCII range.
\<close>

subsection \<open>String operations of the host language\<close>

definition isWhitespace :: "char \<Rightarrow> bool" where
  "isWhitespace c = (c \<in> set [CHR '' '', CHR 0x09, CHR 0x0A, CHR 0x0B, CHR 0x0C, CHR 0x0D])"

definition trim :: "string \<Rightarrow> string" where
  "trim s = rev (dropWhile isWhitespace (rev (dropWhile isWhitespace s)))"

definition lowerChar :: "char \<Rightarrow> char" where
  "lowerChar c = (let n = (of_char c :: nat) in if 65 \<le> n \<and> n \<le> 90 then char_of (n + 32) else c)"

definition toLowerCase :: "string \<Rightarrow> string" where
  "toLowerCase s = map lowerChar s"

text \<open>\<^verbatim>\<open>s.includes(sub)\<close> (\<open>includes\<close> is a keyword of the prover).\<close>

fun str_includes :: "string \<Rightarrow> string \<Rightarrow> bool" where
  "str_includes [] sub = (sub = [])"
| "str_includes (c # cs) sub = (take (length sub) (c # cs) = sub \<or> str_includes cs sub)"

fun join :: "string \<Rightarrow> string list \<Rightarrow> string" where
  "join sep [] = []"
| "join sep [x] = x"
| "join sep (x # y # ys) = x @ sep @ join sep (y # ys)"

subsection \<open>Input rows, configuration and validation errors\<close>

record CSVRowData =
  claim_id :: string
  generator_needed :: string
  water_category :: int
  water_class :: int
  room_id :: string
  room_name :: string
  room_temp_f :: rat
  room_humidity :: rat
  ceiling_materials :: string
  ceiling_damage_moisture :: rat
  wall_materials :: string
  wall_damage_moisture_bottom :: rat
  wall_damage_moisture_middle :: rat
  wall_damage_moisture_top :: rat
  wall_damage_sf :: rat
  floor_materials :: string
  floor_materials_moisture :: rat
  floor_damage_sf :: rat
  room_sf :: rat
  length_ft :: rat
  width_ft :: rat

record UserConfiguration =
  tech_base :: rat
  supervisor_base :: rat
  specialist_base :: rat
  project_management_base :: rat
  large_dehumidifier_daily :: rat
  standard_dehumidifier_daily :: rat
  air_mover_daily :: rat
  heater_daily :: rat
  air_scrubber_daily :: rat
  injection_system_daily :: rat
  generator_daily :: rat
  hardwood_target_mc :: rat
  paneling_target_mc :: rat
  vinyl_target_mc :: rat
  drywall_target_mc :: rat
  carpet_target_mc :: rat

definition DEFAULT_CONFIGURATION :: UserConfiguration where
  "DEFAULT_CONFIGURATION =
     \<lparr>tech_base = 55, supervisor_base = 75, specialist_base = 120,
      project_management_base = 200,
      large_dehumidifier_daily = 25, standard_dehumidifier_daily = 15,
      air_mover_daily = 8, heater_daily = 12, air_scrubber_daily = 35,
      injection_system_daily = 25, generator_daily = 45,
      hardwood_target_mc = 8, paneling_target_mc = 10, vinyl_target_mc = 2,
      drywall_target_mc = 12, carpet_target_mc = 5\<rparr>"

text \<open>
  \<^verbatim>\<open>ValidationError\<close>: \<^verbatim>\<open>value\<close> is optional in the source; the validator sets it
  to the offending number for the range checks and leaves it out for the required
  string fields.
\<close>

record ValidationError =
  row :: nat
  field :: string
  message :: string
  "value" :: "rat option"

subsection \<open>The row validator\<close>

text \<open>
  \<^verbatim>\<open>if (!row[field]?.trim())\<close>: the trimmed string is empty.
\<close>

definition requiredFields :: "(string \<times> (CSVRowData \<Rightarrow> string)) list" where
  "requiredFields = [(''claim_id'', claim_id), (''room_id'', room_id), (''room_name'', room_name)]"

definition requiredErrors :: "CSVRowData \<Rightarrow> nat \<Rightarrow> ValidationError list" where
  "requiredErrors r rowNumber =
     concat (map (\<lambda>(f, sel).
       if trim (sel r) = [] then
         [\<lparr>row = rowNumber, field = f,
           message = f @ '' is required and cannot be empty'', value = None\<rparr>]
       else []) requiredFields)"

definition moistureFields :: "(string \<times> (CSVRowData \<Rightarrow> rat)) list" where
  "moistureFields =
     [(''ceiling_damage_moisture'', ceiling_damage_moisture),
      (''wall_damage_moisture_bottom'', wall_damage_moisture_bottom),
      (''wall_damage_moisture_middle'', wall_damage_moisture_middle),
      (''wall_damage_moisture_top'', wall_damage_moisture_top),
      (''floor_materials_moisture'', floor_materials_moisture)]"

text \<open>
  \<^verbatim>\<open>if (row[field] && (row[field] < 0.05 || row[field] > 0.95))\<close>: a number is
  truthy when it is not zero.
\<close>

definition moistureErrors :: "CSVRowData \<Rightarrow> nat \<Rightarrow> ValidationError list" where
  "moistureErrors r rowNumber =
     concat (map (\<lambda>(f, sel).
       if sel r \<noteq> 0 \<and> (sel r < 5 / 100 \<or> sel r > 95 / 100) then
         [\<lparr>row = rowNumber, field = f,
           message = f @ '' must be between 0.05-0.95 (5%-95%)'', value = Some (sel r)\<rparr>]
       else []) moistureFields)"

definition validateCSVRow :: "CSVRowData \<Rightarrow> nat \<Rightarrow> ValidationError list" where
  "validateCSVRow r rowNumber =
     requiredErrors r rowNumber
     @ (if water_category r < 1 \<or> water_category r > 3 then
          [\<lparr>row = rowNumber, field = ''water_category'',
            message = ''water_category must be between 1-3 (Clean, Grey, Black)'',
            value = Some (of_int (water_category r))\<rparr>]
        else [])
     @ (if water_class r < 1 \<or> water_class r > 4 then
          [\<lparr>row = rowNumber, field = ''water_class'',
            message = ''water_class must be between 1-4 (Minimal, Significant, Major, Specialty)'',
            value = Some (of_int (water_class r))\<rparr>]
        else [])
     @ (if room_sf r < 50 \<or> room_sf r > 5000 then
          [\<lparr>row = rowNumber, field = ''room_sf'',
            message = ''room_sf must be between 50-5000 square feet'',
            value = Some (room_sf r)\<rparr>]
        else [])
     @ (if room_temp_f r < 60 \<or> room_temp_f r > 100 then
          [\<lparr>row = rowNumber, field = ''room_temp_f'',
            message = ''room_temp_f must be between 60-100'' @ [CHR 0xC2, CHR 0xB0] @ ''F'',
            value = Some (room_temp_f r)\<rparr>]
        else [])
     @ (if room_humidity r < 20 \<or> room_humidity r > 90 then
          [\<lparr>row = rowNumber, field = ''room_humidity'',
            message = ''room_humidity must be between 20-90%'',
            value = Some (room_humidity r)\<rparr>]
        else [])
     @ moistureErrors r rowNumber"

subsection \<open>The row loop of the parser\<close>

text \<open>
  \<^verbatim>\<open>parseCSVContent\<close> from the point where the lines have been split into rows: the
  loop runs over the data lines with \<open>i = 1, 2, \<dots>\<close>, validates each row under the row
  number \<open>i + 1\<close>, appends its errors to \<^verbatim>\<open>errors\<close> and the row to \<^verbatim>\<open>invalid\<close>
  when there is an error, and the row to \<^verbatim>\<open>valid\<close> otherwise.
\<close>

record ParseResult =
  valid :: "CSVRowData list"
  invalid :: "CSVRowData list"
  errors :: "ValidationError list"

fun parseRows :: "nat \<Rightarrow> CSVRowData list \<Rightarrow> ParseResult" where
  "parseRows i [] = \<lparr>valid = [], invalid = [], errors = []\<rparr>"
| "parseRows i (r # rest) =
     (let rowErrors = validateCSVRow r (i + 1);
          p = parseRows (i + 1) rest
      in if length rowErrors > 0
         then p\<lparr>invalid := r # invalid p, errors := rowErrors @ errors p\<rparr>
         else p\<lparr>valid := r # valid p\<rparr>)"

definition parseCSVContent :: "CSVRowData list \<Rightarrow> ParseResult" where
  "parseCSVContent rows = parseRows 1 rows"

subsection \<open>The per-room calculation\<close>

text \<open>
  The body of the arrow function that the handler maps over the valid rows. Each
  \<^verbatim>\<open>const\<close> of the source is a definition of the same name, in the source's order;
  \<^verbatim>\<open>heaters\<close>, \<^verbatim>\<open>disposal\<close>, \<^verbatim>\<open>antimicrobial\<close> and \<^verbatim>\<open>subtotal\<close> carry a prime,
  because the result records have fields of these names. \<^verbatim>\<open>configResult.data\<close> is
  the argument \<open>c\<close>.
\<close>

definition largeUnits :: "CSVRowData \<Rightarrow> int" where
  "largeUnits r = (if room_sf r > 1500 then \<lceil>room_sf r / 2500\<rceil> else 0)"

definition standardUnits :: "CSVRowData \<Rightarrow> int" where
  "standardUnits r = (if room_sf r \<le> 1500 then \<lceil>room_sf r / 1200\<rceil> else 0)"

definition airMovers :: "CSVRowData \<Rightarrow> int" where
  "airMovers r = \<lceil>room_sf r / 400\<rceil>"

definition heaters' :: "CSVRowData \<Rightarrow> int" where
  "heaters' r = (if water_category r \<ge> 3 then 1 else 0)"

definition airScrubbers :: "CSVRowData \<Rightarrow> int" where
  "airScrubbers r = (if water_category r \<ge> 3 then 1 else 0)"

definition injectionSystems :: "CSVRowData \<Rightarrow> int" where
  "injectionSystems r =
     (if str_includes (toLowerCase (floor_materials r)) ''hardwood'' then 1 else 0)"

definition generatorRequired :: "CSVRowData \<Rightarrow> int" where
  "generatorRequired r = (if toLowerCase (generator_needed r) = ''yes'' then 1 else 0)"

definition totalUnits :: "CSVRowData \<Rightarrow> int" where
  "totalUnits r =
     largeUnits r + standardUnits r + airMovers r + heaters' r + airScrubbers r
     + injectionSystems r"

definition techHours :: "CSVRowData \<Rightarrow> rat" where
  "techHours r = of_int (totalUnits r) * (125 / 100)"

definition techCost :: "UserConfiguration \<Rightarrow> CSVRowData \<Rightarrow> rat" where
  "techCost c r = techHours r * tech_base c"

definition supervisorHours :: "CSVRowData \<Rightarrow> int" where
  "supervisorHours r = 2 * (3 + (water_class r - 1))"

definition supervisorCost :: "UserConfiguration \<Rightarrow> CSVRowData \<Rightarrow> rat" where
  "supervisorCost c r = of_int (supervisorHours r) * supervisor_base c"

definition specialistHours :: "CSVRowData \<Rightarrow> int" where
  "specialistHours r = (if water_category r \<ge> 3 then 4 else 0)"

definition specialistCost :: "UserConfiguration \<Rightarrow> CSVRowData \<Rightarrow> rat" where
  "specialistCost c r = of_int (specialistHours r) * specialist_base c"

definition projectManagement :: "UserConfiguration \<Rightarrow> rat" where
  "projectManagement c = project_management_base c"

definition totalLabor :: "UserConfiguration \<Rightarrow> CSVRowData \<Rightarrow> rat" where
  "totalLabor c r = techCost c r + supervisorCost c r + specialistCost c r + projectManagement c"

definition dailyEquipmentCost :: "UserConfiguration \<Rightarrow> CSVRowData \<Rightarrow> rat" where
  "dailyEquipmentCost c r =
     (of_int (largeUnits r) * large_dehumidifier_daily c)
     + (of_int (standardUnits r) * standard_dehumidifier_daily c)
     + (of_int (airMovers r) * air_mover_daily c)
     + (of_int (heaters' r) * heater_daily c)
     + (of_int (airScrubbers r) * air_scrubber_daily c)
     + (of_int (injectionSystems r) * injection_system_daily c)
     + (of_int (generatorRequired r) * generator_daily c)"

definition totalDays :: "CSVRowData \<Rightarrow> int" where
  "totalDays r = 3 + (water_class r - 1)"

definition totalEquipment :: "UserConfiguration \<Rightarrow> CSVRowData \<Rightarrow> rat" where
  "totalEquipment c r = dailyEquipmentCost c r * of_int (totalDays r)"

definition floorTreatment :: "CSVRowData \<Rightarrow> rat" where
  "floorTreatment r = floor_damage_sf r * (25 / 10)"

definition wallTreatment :: "CSVRowData \<Rightarrow> rat" where
  "wallTreatment r = wall_damage_sf r * 2"

definition ceilingTreatment :: rat where
  "ceilingTreatment = 0"

definition disposal' :: rat where
  "disposal' = 100"

definition antimicrobial' :: "CSVRowData \<Rightarrow> rat" where
  "antimicrobial' r = (if water_category r \<ge> 3 then 200 else 0)"

definition totalMaterials :: "CSVRowData \<Rightarrow> rat" where
  "totalMaterials r =
     floorTreatment r + wallTreatment r + ceilingTreatment + disposal' + antimicrobial' r"

definition subtotal' :: "UserConfiguration \<Rightarrow> CSVRowData \<Rightarrow> rat" where
  "subtotal' c r = totalLabor c r + totalEquipment c r + totalMaterials r"

definition commercialMarkup :: "UserConfiguration \<Rightarrow> CSVRowData \<Rightarrow> rat" where
  "commercialMarkup c r = subtotal' c r * (15 / 100)"

definition totalRoomCost :: "UserConfiguration \<Rightarrow> CSVRowData \<Rightarrow> rat" where
  "totalRoomCost c r = subtotal' c r + commercialMarkup c r"

definition costPerSqft :: "UserConfiguration \<Rightarrow> CSVRowData \<Rightarrow> rat" where
  "costPerSqft c r = totalRoomCost c r / room_sf r"

subsection \<open>Result types\<close>

text \<open>
  The interfaces of the type definitions, one record each. Where two interfaces share
  a field name the fields are told apart by the record's name
  (\<open>RoomResult.room_sf\<close>, \<open>CSVRowData.room_sf\<close>). The anonymous object types
  \<^verbatim>\<open>complexity_factors\<close>, \<^verbatim>\<open>floor\<close>, \<^verbatim>\<open>wall\<close>, \<^verbatim>\<open>ceiling\<close> and the element
  type of \<^verbatim>\<open>details\<close> get a record of their own; the fields \<^verbatim>\<open>floor\<close>,
  \<^verbatim>\<open>wall\<close>, \<^verbatim>\<open>ceiling\<close> of \<^verbatim>\<open>RoomMaterials\<close> and \<^verbatim>\<open>category\<close>, \<^verbatim>\<open>class\<close>
  of \<^verbatim>\<open>complexity_factors\<close> carry a suffix, since the bare names are taken.
\<close>

datatype DehumidifierType = Standard | LGR | Desiccant

record EquipmentRequirements =
  large_units :: int
  standard_units :: int
  air_movers :: int
  heaters :: int
  air_scrubbers :: int
  injection_systems :: int
  generator_required :: int
  total_units :: int
  recommended_dehumidifier_type :: DehumidifierType

record LaborCosts =
  tech_hours :: rat
  tech_cost :: rat
  supervisor_hours :: int
  supervisor_cost :: rat
  specialist_hours :: int
  specialist_cost :: rat
  project_management :: rat
  total_labor :: rat

record EquipmentCosts =
  daily_cost :: rat
  total_days :: int
  total_equipment :: rat

record MaterialCosts =
  floor_treatment :: rat
  wall_treatment :: rat
  ceiling_treatment :: rat
  disposal :: rat
  antimicrobial :: rat
  total_materials :: rat

record RoomCosts =
  labor :: LaborCosts
  equipment :: EquipmentCosts
  materials :: MaterialCosts
  subtotal :: rat
  commercial_markup :: rat
  total_room_cost :: rat
  cost_per_sqft :: rat

record ComplexityFactors =
  category_factor :: int
  class_factor :: int

record RoomTimeline =
  estimated_days :: int
  daily_monitoring_hours :: int
  base_days :: int
  class_multiplier :: rat
  complexity_factors :: ComplexityFactors

record ElectricalRequirements =
  total_amperage :: rat
  circuits_20a_required :: int
  circuits_15a_required :: int
  daily_kwh :: rat
  voltage :: string
  generator_needed :: int

record MaterialSpecification =
  thickness :: rat
  cost :: rat
  target_mc :: rat

record FloorMaterials =
  material_type :: string
  material_specs :: MaterialSpecification
  affected_sqft :: rat
  moisture_content :: rat
  volume_cuft :: rat
  length_ft :: rat
  width_ft :: rat

record WallMaterials =
  material_type :: string
  material_specs :: MaterialSpecification
  affected_sqft :: rat
  moisture_weighted :: rat
  removal_factor :: rat
  volume_cuft :: rat

record CeilingMaterials =
  material_type :: string
  material_specs :: MaterialSpecification
  affected_sqft :: rat
  moisture_content :: rat
  volume_cuft :: rat

record RoomMaterials =
  floor_materials_detail :: FloorMaterials
  wall_materials_detail :: WallMaterials
  ceiling_materials_detail :: CeilingMaterials
  total_volume :: rat
  disposal_volume :: rat

record RoomResult =
  room_id :: string
  room_name :: string
  room_sf :: rat
  equipment :: EquipmentRequirements
  costs :: RoomCosts
  timeline :: RoomTimeline
  electrical :: ElectricalRequirements
  materials :: RoomMaterials

record FleetRequirements =
  large_dehumidifiers :: int
  standard_dehumidifiers :: int
  air_movers :: int
  heaters :: int
  air_scrubbers :: int
  injection_systems :: int
  generators :: int
  total_equipment_units :: int

record ElectricalSummary =
  total_circuits_20a :: int
  total_circuits_15a :: int
  daily_kwh :: rat
  total_kwh_project :: rat
  peak_amperage :: rat
  voltage_standard :: string

record OptimizationDetail =
  timeline :: int
  room_count :: int
  original_cost :: rat
  optimized_cost :: rat
  savings :: rat
  room_names :: string

record LaborOptimization =
  savings :: rat
  supervision_savings :: rat
  setup_breakdown_savings :: rat
  details :: "OptimizationDetail list"

record ProjectSummary =
  room_count :: nat
  total_cost :: rat
  optimized_total_cost :: rat
  total_affected_sf :: rat
  total_equipment_units :: int
  total_amperage :: rat
  longest_timeline :: int
  average_cost_per_sf :: rat
  fleet_requirements :: FleetRequirements
  electrical_summary :: ElectricalSummary
  labor_optimization :: LaborOptimization

record CalculationResults =
  rooms :: "RoomResult list"
  project :: ProjectSummary

record CSVProcessResponse =
  success :: bool
  results :: CalculationResults
  errors :: "ValidationError list"
  skipped :: nat

text \<open>
  \<^verbatim>\<open>createApiResponse\<close> and the \<^verbatim>\<open>ApiResponse\<close> it builds, without the timestamp.
\<close>

record ApiResponse =
  success :: bool
  data :: "CSVProcessResponse option"
  error :: "string option"

record ApiReply =
  response :: ApiResponse
  status :: nat

definition createApiResponse ::
  "bool \<Rightarrow> CSVProcessResponse option \<Rightarrow> string option \<Rightarrow> nat \<Rightarrow> ApiReply" where
  "createApiResponse ok d e statusCode =
     \<lparr>response = \<lparr>ApiResponse.success = ok, data = d, error = e\<rparr>, status = statusCode\<rparr>"

subsection \<open>The room result\<close>

definition roomResult :: "UserConfiguration \<Rightarrow> CSVRowData \<Rightarrow> RoomResult" where
  "roomResult c r =
     \<lparr>RoomResult.room_id = CSVRowData.room_id r,
      RoomResult.room_name = CSVRowData.room_name r,
      RoomResult.room_sf = CSVRowData.room_sf r,
      equipment =
        \<lparr>large_units = largeUnits r,
         standard_units = standardUnits r,
         EquipmentRequirements.air_movers = airMovers r,
         EquipmentRequirements.heaters = heaters' r,
         EquipmentRequirements.air_scrubbers = airScrubbers r,
         EquipmentRequirements.injection_systems = injectionSystems r,
         generator_required = generatorRequired r,
         total_units = totalUnits r,
         recommended_dehumidifier_type = Standard\<rparr>,
      costs =
        \<lparr>labor =
           \<lparr>tech_hours = techHours r,
            tech_cost = techCost c r,
            supervisor_hours = supervisorHours r,
            supervisor_cost = supervisorCost c r,
            specialist_hours = specialistHours r,
            specialist_cost = specialistCost c r,
            project_management = projectManagement c,
            total_labor = totalLabor c r\<rparr>,
         RoomCosts.equipment =
           \<lparr>daily_cost = dailyEquipmentCost c r,
            total_days = totalDays r,
            total_equipment = totalEquipment c r\<rparr>,
         RoomCosts.materials =
           \<lparr>floor_treatment = floorTreatment r,
            wall_treatment = wallTreatment r,
            ceiling_treatment = ceilingTreatment,
            disposal = disposal',
            antimicrobial = antimicrobial' r,
            total_materials = totalMaterials r\<rparr>,
         subtotal = subtotal' c r,
         commercial_markup = commercialMarkup c r,
         total_room_cost = totalRoomCost c r,
         cost_per_sqft = costPerSqft c r\<rparr>,
      RoomResult.timeline =
        \<lparr>estimated_days = 3 + (water_class r - 1),
         daily_monitoring_hours = 2,
         base_days = 3,
         class_multiplier = 1 + of_int (water_class r - 1) * (3 / 10),
         complexity_factors =
           \<lparr>category_factor = water_category r, class_factor = water_class r\<rparr>\<rparr>,
      electrical =
        \<lparr>ElectricalRequirements.total_amperage = 45,
         circuits_20a_required = 1,
         circuits_15a_required = 2,
         ElectricalRequirements.daily_kwh = 24,
         voltage = ''120V'',
         ElectricalRequirements.generator_needed =
           (if toLowerCase (CSVRowData.generator_needed r) = ''yes'' then 1 else 0)\<rparr>,
      materials =
        \<lparr>floor_materials_detail =
           \<lparr>FloorMaterials.material_type = floor_materials r,
            FloorMaterials.material_specs = \<lparr>thickness = 75 / 100, cost = 25 / 10, target_mc = 8\<rparr>,
            FloorMaterials.affected_sqft = floor_damage_sf r,
            FloorMaterials.moisture_content = floor_materials_moisture r,
            FloorMaterials.volume_cuft = floor_damage_sf r * (75 / 100) / 12,
            FloorMaterials.length_ft = CSVRowData.length_ft r,
            FloorMaterials.width_ft = CSVRowData.width_ft r\<rparr>,
         wall_materials_detail =
           \<lparr>WallMaterials.material_type = wall_materials r,
            WallMaterials.material_specs = \<lparr>thickness = 5 / 10, cost = 225 / 100, target_mc = 12\<rparr>,
            WallMaterials.affected_sqft = wall_damage_sf r,
            moisture_weighted =
              (wall_damage_moisture_bottom r * (5 / 10)
               + wall_damage_moisture_middle r * (3 / 10)
               + wall_damage_moisture_top r * (2 / 10)),
            removal_factor = 1,
            WallMaterials.volume_cuft = wall_damage_sf r * (5 / 10) / 12\<rparr>,
         ceiling_materials_detail =
           \<lparr>CeilingMaterials.material_type = ceiling_materials r,
            CeilingMaterials.material_specs = \<lparr>thickness = 5 / 10, cost = 225 / 100, target_mc = 12\<rparr>,
            CeilingMaterials.affected_sqft = 0,
            CeilingMaterials.moisture_content = ceiling_damage_moisture r,
            CeilingMaterials.volume_cuft = 0\<rparr>,
         total_volume = 0,
         disposal_volume = 0\<rparr>\<rparr>"

subsection \<open>The project summary\<close>

text \<open>
  \<^verbatim>\<open>xs.reduce((sum, x) => sum + f(x), 0)\<close> is a left fold. \<^verbatim>\<open>Math.max(...xs)\<close> is
  the greatest element; the handler reaches it only with a non-empty list (on the
  empty list JavaScript yields \<^verbatim>\<open>-Infinity\<close>, which the model does not have).
\<close>

definition reduce_sum :: "('a \<Rightarrow> 'b::monoid_add) \<Rightarrow> 'a list \<Rightarrow> 'b" where
  "reduce_sum f xs = foldl (\<lambda>sum x. sum + f x) 0 xs"

definition Math_max :: "int list \<Rightarrow> int" where
  "Math_max xs = Max (set xs)"

definition projectTotalCost :: "RoomResult list \<Rightarrow> rat" where
  "projectTotalCost rs = reduce_sum (\<lambda>room. total_room_cost (costs room)) rs"

definition projectTotalUnits :: "RoomResult list \<Rightarrow> int" where
  "projectTotalUnits rs = reduce_sum (\<lambda>room. total_units (equipment room)) rs"

definition projectTotalAmperage :: "RoomResult list \<Rightarrow> rat" where
  "projectTotalAmperage rs = reduce_sum (\<lambda>room. 45) rs"

definition longestTimeline :: "RoomResult list \<Rightarrow> int" where
  "longestTimeline rs = Math_max (map (\<lambda>room. estimated_days (RoomResult.timeline room)) rs)"

definition averageCostPerSf :: "RoomResult list \<Rightarrow> rat" where
  "averageCostPerSf rs = projectTotalCost rs / reduce_sum RoomResult.room_sf rs"

definition projectSummary :: "CSVRowData list \<Rightarrow> RoomResult list \<Rightarrow> ProjectSummary" where
  "projectSummary vs rs =
     \<lparr>ProjectSummary.room_count = length vs,
      total_cost = projectTotalCost rs,
      optimized_total_cost = projectTotalCost rs * (95 / 100),
      total_affected_sf = reduce_sum CSVRowData.room_sf vs,
      ProjectSummary.total_equipment_units = projectTotalUnits rs,
      ProjectSummary.total_amperage = projectTotalAmperage rs,
      longest_timeline = longestTimeline rs,
      average_cost_per_sf = averageCostPerSf rs,
      fleet_requirements =
        \<lparr>large_dehumidifiers = reduce_sum (\<lambda>room. large_units (equipment room)) rs,
         standard_dehumidifiers = reduce_sum (\<lambda>room. standard_units (equipment room)) rs,
         FleetRequirements.air_movers =
           reduce_sum (\<lambda>room. EquipmentRequirements.air_movers (equipment room)) rs,
         FleetRequirements.heaters =
           reduce_sum (\<lambda>room. EquipmentRequirements.heaters (equipment room)) rs,
         FleetRequirements.air_scrubbers =
           reduce_sum (\<lambda>room. EquipmentRequirements.air_scrubbers (equipment room)) rs,
         FleetRequirements.injection_systems =
           reduce_sum (\<lambda>room. EquipmentRequirements.injection_systems (equipment room)) rs,
         generators = reduce_sum (\<lambda>room. generator_required (equipment room)) rs,
         FleetRequirements.total_equipment_units = projectTotalUnits rs\<rparr>,
      electrical_summary =
        \<lparr>total_circuits_20a = reduce_sum (\<lambda>room. circuits_20a_required (electrical room)) rs,
         total_circuits_15a = reduce_sum (\<lambda>room. circuits_15a_required (electrical room)) rs,
         ElectricalSummary.daily_kwh =
           reduce_sum (\<lambda>room. ElectricalRequirements.daily_kwh (electrical room)) rs,
         total_kwh_project =
           reduce_sum (\<lambda>room. ElectricalRequirements.daily_kwh (electrical room)
                            * of_int (estimated_days (RoomResult.timeline room))) rs,
         peak_amperage = projectTotalAmperage rs,
         voltage_standard = ''120V''\<rparr>,
      labor_optimization =
        \<lparr>LaborOptimization.savings = projectTotalCost rs * (5 / 100),
         supervision_savings = projectTotalCost rs * (3 / 100),
         setup_breakdown_savings = projectTotalCost rs * (2 / 100),
         details = []\<rparr>\<rparr>"

subsection \<open>The handler\<close>

text \<open>
  The body of the \<^verbatim>\<open>/api/csv/process\<close> handler from the call of
  \<^verbatim>\<open>parseCSVContent\<close> on (the checks of the user id and of the uploaded file
  come before it and return failures of their own). The result of
  \<^verbatim>\<open>dbClient.getConfiguration\<close> is the argument \<open>configResult\<close>: \<open>None\<close> when it
  did not succeed.
\<close>

definition processCSV :: "UserConfiguration option \<Rightarrow> CSVRowData list \<Rightarrow> ApiReply" where
  "processCSV configResult rows =
     (let p = parseCSVContent rows in
      if length (valid p) = 0 then
        createApiResponse False None
          (Some (''No valid rows found. Errors: ''
                 @ join ''; '' (map message (ParseResult.errors p)))) 400
      else
        (case configResult of
           None \<Rightarrow>
             createApiResponse False None (Some ''Failed to retrieve user configuration'') 500
         | Some c \<Rightarrow>
             (let mockRooms = map (roomResult c) (valid p);
                  processResponse =
                    \<lparr>CSVProcessResponse.success = True,
                     results = \<lparr>rooms = mockRooms, project = projectSummary (valid p) mockRooms\<rparr>,
                     CSVProcessResponse.errors = ParseResult.errors p,
                     skipped = length (invalid p)\<rparr>
              in createApiResponse True (Some processResponse) None 200)))"

subsection \<open>Concrete rows\<close>

text \<open>
  \<open>sampleRow\<close> is the data row of the sample file in the README (claim CLM001, room
  R001), as the parser reads it. The other rows differ from it in the fields shown.
\<close>

definition sampleRow :: CSVRowData where
  "sampleRow =
     \<lparr>claim_id = ''CLM001'', CSVRowData.generator_needed = ''No'',
      water_category = 2, water_class = 2,
      CSVRowData.room_id = ''R001'', CSVRowData.room_name = ''Main Office'',
      room_temp_f = 72, room_humidity = 55,
      ceiling_materials = [], ceiling_damage_moisture = 0,
      wall_materials = ''drywall'',
      wall_damage_moisture_bottom = 45 / 100, wall_damage_moisture_middle = 25 / 100,
      wall_damage_moisture_top = 15 / 100, wall_damage_sf = 120,
      floor_materials = ''hardwood'', floor_materials_moisture = 35 / 100,
      floor_damage_sf = 200,
      CSVRowData.room_sf = 400, CSVRowData.length_ft = 20, CSVRowData.width_ft = 20\<rparr>"

definition largeRow :: CSVRowData where
  "largeRow =
     sampleRow\<lparr>CSVRowData.generator_needed := ''YES'', water_category := 3, water_class := 4,
       CSVRowData.room_id := ''R002'', CSVRowData.room_name := ''Warehouse'',
       floor_materials := ''concrete'', floor_damage_sf := 1500,
       CSVRowData.room_sf := 3000, CSVRowData.length_ft := 60, CSVRowData.width_ft := 50\<rparr>"

definition lobbyRow :: CSVRowData where
  "lobbyRow =
     sampleRow\<lparr>CSVRowData.room_id := ''R003'', CSVRowData.room_name := ''Lobby'',
       floor_materials := ''carpet'', CSVRowData.room_sf := 800,
       CSVRowData.length_ft := 40\<rparr>"

definition negativeRow :: CSVRowData where
  "negativeRow = sampleRow\<lparr>floor_damage_sf := - 1000\<rparr>"

definition wetRow :: CSVRowData where
  "wetRow = sampleRow\<lparr>floor_materials_moisture := 99 / 100\<rparr>"

definition unnamedRow :: CSVRowData where
  "unnamedRow = sampleRow\<lparr>CSVRowData.room_name := ''  '', CSVRowData.room_sf := 20\<rparr>"

subsection \<open>Predicates used to state the properties\<close>

text \<open>
  A row passes the validator when \<open>validateCSVRow\<close> reports no error for it. The
  row number only labels the errors, so any number can stand in the definition.
\<close>

definition rowPasses :: "CSVRowData \<Rightarrow> bool" where
  "rowPasses r = (validateCSVRow r 0 = [])"

text \<open>
  The eleven rates of a configuration that enter a cost are not negative. (The
  configuration layer keeps each rate inside a positive range before it is stored.)
\<close>

definition ratesNonNegative :: "UserConfiguration \<Rightarrow> bool" where
  "ratesNonNegative c =
     (0 \<le> tech_base c \<and> 0 \<le> supervisor_base c \<and> 0 \<le> specialist_base c
      \<and> 0 \<le> project_management_base c
      \<and> 0 \<le> large_dehumidifier_daily c \<and> 0 \<le> standard_dehumidifier_daily c
      \<and> 0 \<le> air_mover_daily c \<and> 0 \<le> heater_daily c \<and> 0 \<le> air_scrubber_daily c
      \<and> 0 \<le> injection_system_daily c \<and> 0 \<le> generator_daily c)"

section \<open>Properties of the per-room calculation\<close>

subsection \<open>Rollup\<close>



subsection \<open>Timeline\<close>

lemma ceiling_cases: "\<lceil>3 * (1 + of_int (k - 1) * (3 / 10 :: rat))\<rceil> = 3 + (k - 1)"
  if "1 \<le> k" "k \<le> 4" for k :: int
proof -
  from that have "k = 1 \<or> k = 2 \<or> k = 3 \<or> k = 4" by arith
  then show ?thesis
    by (auto simp: ceiling_eq_iff)
qed

text \<open>
  Claim C4. For every room with water_class in {1, 2, 3, 4}, the timeline satisfies
  estimated_days = ceil(base_days \<times> class_multiplier), with base_days = 3 and
  class_multiplier = 1 + (water_class - 1) \<times> 0.3; the days charged for the equipment
  are the same number; daily_monitoring_hours is the constant 2; the multiplier is
  monotonic non-decreasing in water_class (whatever the other room and configuration
  are); and for water_class = 2, estimated_days = ceil(3 \<times> class_multiplier).
\<close>

theorem timeline_estimated_days:
  assumes "1 \<le> water_class r" and "water_class r \<le> 4"
  shows "estimated_days (RoomResult.timeline (roomResult c r)) =
           \<lceil>of_int (base_days (RoomResult.timeline (roomResult c r)))
             * class_multiplier (RoomResult.timeline (roomResult c r))\<rceil>
         \<and> total_days (RoomCosts.equipment (costs (roomResult c r))) =
             estimated_days (RoomResult.timeline (roomResult c r))
         \<and> daily_monitoring_hours (RoomResult.timeline (roomResult c r)) = 2
         \<and> base_days (RoomResult.timeline (roomResult c r)) = 3
         \<and> (water_class r \<le> water_class r' \<longrightarrow>
              class_multiplier (RoomResult.timeline (roomResult c r))
              \<le> class_multiplier (RoomResult.timeline (roomResult c' r')))
         \<and> (water_class r = 2 \<longrightarrow>
              estimated_days (RoomResult.timeline (roomResult c r)) =
                \<lceil>3 * class_multiplier (RoomResult.timeline (roomResult c r))\<rceil>)"
proof -
  let ?t = "RoomResult.timeline (roomResult c r)"
  have days: "estimated_days ?t = 3 + (water_class r - 1)"
    by (simp add: roomResult_def)
  have mult: "class_multiplier ?t = 1 + of_int (water_class r - 1) * (3 / 10)"
    by (simp add: roomResult_def)
  have mult': "class_multiplier (RoomResult.timeline (roomResult c' r')) =
                 1 + of_int (water_class r' - 1) * (3 / 10)"
    by (simp add: roomResult_def)
  have base: "base_days ?t = 3"
    by (simp add: roomResult_def)
  have c1: "estimated_days ?t = \<lceil>of_int (base_days ?t) * class_multiplier ?t\<rceil>"
    unfolding days mult base using ceiling_cases [OF assms] by simp
  have c2: "total_days (RoomCosts.equipment (costs (roomResult c r))) = estimated_days ?t"
    by (simp add: roomResult_def totalDays_def)
  have c3: "daily_monitoring_hours ?t = 2"
    by (simp add: roomResult_def)
  have c5: "water_class r \<le> water_class r' \<longrightarrow>
              class_multiplier ?t \<le> class_multiplier (RoomResult.timeline (roomResult c' r'))"
    unfolding mult mult' by simp
  have c6: "water_class r = 2 \<longrightarrow> estimated_days ?t = \<lceil>3 * class_multiplier ?t\<rceil>"
    using c1 base by simp
  from c1 c2 c3 base c5 c6 show ?thesis by blast
qed

theorem timeline_estimated_days_witness:
  "1 \<le> water_class sampleRow \<and> water_class sampleRow \<le> 4
   \<and> water_class sampleRow = 2 \<and> water_class sampleRow \<le> water_class largeRow
   \<and> estimated_days (RoomResult.timeline (roomResult DEFAULT_CONFIGURATION sampleRow)) = 4
   \<and> class_multiplier (RoomResult.timeline (roomResult DEFAULT_CONFIGURATION sampleRow)) = 13 / 10
   \<and> class_multiplier (RoomResult.timeline (roomResult DEFAULT_CONFIGURATION largeRow)) = 19 / 10
   \<and> \<lceil>3 * (13 / 10 :: rat)\<rceil> = 4"
proof -
  have h1: "1 \<le> water_class sampleRow" and h2: "water_class sampleRow \<le> 4"
    and h3: "water_class sampleRow = 2" and h4: "water_class sampleRow \<le> water_class largeRow"
    by (simp_all add: sampleRow_def largeRow_def)
  have m: "class_multiplier (RoomResult.timeline (roomResult DEFAULT_CONFIGURATION sampleRow)) = 13 / 10"
    by code_simp
  have m': "class_multiplier (RoomResult.timeline (roomResult DEFAULT_CONFIGURATION largeRow)) = 19 / 10"
    by code_simp
  from timeline_estimated_days [OF h1 h2, of DEFAULT_CONFIGURATION largeRow DEFAULT_CONFIGURATION]
  have "estimated_days (RoomResult.timeline (roomResult DEFAULT_CONFIGURATION sampleRow)) =
          \<lceil>3 * class_multiplier (RoomResult.timeline (roomResult DEFAULT_CONFIGURATION sampleRow))\<rceil>"
    using h3 by blast
  moreover have "\<lceil>3 * (13 / 10 :: rat)\<rceil> = 4"
    by (simp add: ceiling_eq_iff)
  ultimately show ?thesis
    using h1 h2 h3 h4 m m' by simp
qed

subsection \<open>Dehumidifier sizing\<close>

lemma ceiling_div_pos: "1 \<le> \<lceil>x / d\<rceil>" if "0 < x" "0 < d" for x d :: rat
  using that by simp

text \<open>
  Claim C10. For every room with room_sf in [50, 5000], exactly one dehumidifier class
  is selected: if room_sf > 1500 then large_units = ceil(room_sf / 2500), which is at
  least 1, and standard_units = 0; otherwise standard_units = ceil(room_sf / 1200),
  which is at least 1, and large_units = 0. The two counts are never both positive and
  never both zero.
\<close>

theorem dehumidifier_one_class:
  assumes "50 \<le> CSVRowData.room_sf r" and "CSVRowData.room_sf r \<le> 5000"
  shows "(if CSVRowData.room_sf r > 1500
          then large_units (equipment (roomResult c r)) = \<lceil>CSVRowData.room_sf r / 2500\<rceil>
               \<and> large_units (equipment (roomResult c r)) \<ge> 1
               \<and> standard_units (equipment (roomResult c r)) = 0
          else standard_units (equipment (roomResult c r)) = \<lceil>CSVRowData.room_sf r / 1200\<rceil>
               \<and> standard_units (equipment (roomResult c r)) \<ge> 1
               \<and> large_units (equipment (roomResult c r)) = 0)
         \<and> \<not> (large_units (equipment (roomResult c r)) > 0
                \<and> standard_units (equipment (roomResult c r)) > 0)
         \<and> \<not> (large_units (equipment (roomResult c r)) = 0
                \<and> standard_units (equipment (roomResult c r)) = 0)"
proof -
  have L: "large_units (equipment (roomResult c r)) = largeUnits r"
    and S: "standard_units (equipment (roomResult c r)) = standardUnits r"
    by (simp_all add: roomResult_def)
  have pos: "0 < CSVRowData.room_sf r" using assms by simp
  have a: "1 \<le> \<lceil>CSVRowData.room_sf r / 2500\<rceil>" by (rule ceiling_div_pos [OF pos]) simp
  have b: "1 \<le> \<lceil>CSVRowData.room_sf r / 1200\<rceil>" by (rule ceiling_div_pos [OF pos]) simp
  show ?thesis
  proof (cases "CSVRowData.room_sf r > 1500")
    case True
    then have "largeUnits r = \<lceil>CSVRowData.room_sf r / 2500\<rceil>" and "standardUnits r = 0"
      by (simp_all add: largeUnits_def standardUnits_def)
    with a True show ?thesis unfolding L S by presburger
  next
    case False
    then have "standardUnits r = \<lceil>CSVRowData.room_sf r / 1200\<rceil>" and "largeUnits r = 0"
      by (simp_all add: largeUnits_def standardUnits_def)
    with b False show ?thesis unfolding L S by presburger
  qed
qed

theorem dehumidifier_one_class_witness:
  "50 \<le> CSVRowData.room_sf sampleRow \<and> CSVRowData.room_sf sampleRow \<le> 5000
   \<and> 50 \<le> CSVRowData.room_sf largeRow \<and> CSVRowData.room_sf largeRow \<le> 5000
   \<and> standard_units (equipment (roomResult DEFAULT_CONFIGURATION sampleRow)) = 1
   \<and> large_units (equipment (roomResult DEFAULT_CONFIGURATION sampleRow)) = 0
   \<and> large_units (equipment (roomResult DEFAULT_CONFIGURATION largeRow)) = 2
   \<and> standard_units (equipment (roomResult DEFAULT_CONFIGURATION largeRow)) = 0"
proof -
  have s: "50 \<le> CSVRowData.room_sf sampleRow" "CSVRowData.room_sf sampleRow \<le> 5000"
    and l: "50 \<le> CSVRowData.room_sf largeRow" "CSVRowData.room_sf largeRow \<le> 5000"
    by (simp_all add: sampleRow_def largeRow_def)
  have sv: "CSVRowData.room_sf sampleRow = 400" and lv: "CSVRowData.room_sf largeRow = 3000"
    by (simp_all add: sampleRow_def largeRow_def)
  have c1: "\<lceil>1 / 3 :: rat\<rceil> = 1" and c2: "\<lceil>6 / 5 :: rat\<rceil> = 2"
    by (simp_all add: ceiling_eq_iff)
  show ?thesis
    using dehumidifier_one_class [OF s, of DEFAULT_CONFIGURATION]
      dehumidifier_one_class [OF l, of DEFAULT_CONFIGURATION] s l
    unfolding sv lv by (simp add: c1 c2)
qed


subsection \<open>Electrical load\<close>

text \<open>
  Claim C6, as the specification states it, fails: it has total_amperage be the sum over
  the equipment units of a per-type draw, so that rooms with different equipment
  counts get different totals. The two valid rooms below have 3 and 12 units, and both
  get 45.
\<close>

theorem electrical_counterexample:
  "validateCSVRow sampleRow 2 = [] \<and> validateCSVRow largeRow 3 = []
   \<and> total_units (equipment (roomResult DEFAULT_CONFIGURATION sampleRow)) = 3
   \<and> total_units (equipment (roomResult DEFAULT_CONFIGURATION largeRow)) = 12
   \<and> ElectricalRequirements.total_amperage
        (electrical (roomResult DEFAULT_CONFIGURATION sampleRow)) = 45
   \<and> ElectricalRequirements.total_amperage
        (electrical (roomResult DEFAULT_CONFIGURATION largeRow)) = 45"
proof -
  have "validateCSVRow sampleRow 2 = []" by code_simp
  moreover have "validateCSVRow largeRow 3 = []" by code_simp
  moreover have "total_units (equipment (roomResult DEFAULT_CONFIGURATION sampleRow)) = 3"
    by code_simp
  moreover have "total_units (equipment (roomResult DEFAULT_CONFIGURATION largeRow)) = 12"
    by code_simp
  ultimately show ?thesis by (simp add: roomResult_def)
qed

text \<open>
  Claim C6, amended. For every room the electrical output is a fixed placeholder,
  independent of the equipment: total_amperage = 45, one 20A circuit, two 15A circuits,
  daily_kwh = 24, voltage 120V; generator_needed passes the input flag through (1 when
  the flag, in lower case, is "yes", and 0 otherwise).
\<close>

theorem electrical_placeholder:
  "electrical (roomResult c r) =
     \<lparr>ElectricalRequirements.total_amperage = 45,
      circuits_20a_required = 1,
      circuits_15a_required = 2,
      ElectricalRequirements.daily_kwh = 24,
      voltage = ''120V'',
      ElectricalRequirements.generator_needed =
        (if toLowerCase (CSVRowData.generator_needed r) = ''yes'' then 1 else 0)\<rparr>"
  by (simp add: roomResult_def)

subsection \<open>Material costs\<close>

text \<open>
  Claim C5 says that each treatment cost is the affected square footage times the cost
  per square foot of the specification reported for that surface. For the wall the
  calculation multiplies by 2.0 while the reported wall specification has cost 2.25:
  on the sample row (120 square feet of wall) the wall treatment is 240, and the
  affected area times the reported cost is 270.
\<close>

theorem wall_treatment_mismatch:
  "validateCSVRow sampleRow 2 = []
   \<and> wall_treatment (RoomCosts.materials (costs (roomResult DEFAULT_CONFIGURATION sampleRow))) = 240
   \<and> WallMaterials.affected_sqft
        (wall_materials_detail (materials (roomResult DEFAULT_CONFIGURATION sampleRow)))
      * cost (WallMaterials.material_specs
          (wall_materials_detail (materials (roomResult DEFAULT_CONFIGURATION sampleRow)))) = 270"
proof -
  have "validateCSVRow sampleRow 2 = []" by code_simp
  moreover have "wall_damage_sf sampleRow = 120" by (simp add: sampleRow_def)
  ultimately show ?thesis by (simp add: roomResult_def wallTreatment_def)
qed

section \<open>Properties of the row validator\<close>

lemma validateCSVRow_Nil_iff:
  "(validateCSVRow r n = []) = (validateCSVRow r m = [])"
  by (simp add: validateCSVRow_def requiredErrors_def moistureErrors_def
      requiredFields_def moistureFields_def)

lemma validateCSVRow_Nil_rowPasses: "(validateCSVRow r n = []) = rowPasses r"
  unfolding rowPasses_def by (rule validateCSVRow_Nil_iff)

lemma valid_row_ranges:
  assumes "validateCSVRow r n = []"
  shows "1 \<le> water_category r" "water_category r \<le> 3"
    "1 \<le> water_class r" "water_class r \<le> 4"
    "50 \<le> CSVRowData.room_sf r" "CSVRowData.room_sf r \<le> 5000"
  using assms by (simp_all add: validateCSVRow_def split: if_splits)

lemma valid_parseRows: "valid (parseRows i rows) = filter rowPasses rows"
  by (induction rows arbitrary: i) (simp_all add: Let_def validateCSVRow_Nil_rowPasses)

lemma invalid_parseRows: "invalid (parseRows i rows) = filter (\<lambda>r. \<not> rowPasses r) rows"
  by (induction rows arbitrary: i) (simp_all add: Let_def validateCSVRow_Nil_rowPasses)

lemma errors_parseRows:
  "ParseResult.errors (parseRows i rows) =
     concat (map (\<lambda>(k, r). validateCSVRow r (k + 1)) (enumerate i rows))"
  by (induction rows arbitrary: i) (simp_all add: Let_def)

lemma moisture_error_member:
  assumes "(f, sel) \<in> set moistureFields" and "sel r \<noteq> 0"
    and "sel r < 5 / 100 \<or> sel r > 95 / 100"
  shows "\<lparr>row = n, field = f, message = f @ '' must be between 0.05-0.95 (5%-95%)'',
           value = Some (sel r)\<rparr> \<in> set (moistureErrors r n)"
  using assms unfolding moistureErrors_def by (force split: prod.splits)

text \<open>
  Claim C9, as the specification states it, fails: a moisture value of 0 lies outside
  [0.05, 0.95] and is accepted, because the check is guarded by the truthiness of the
  value. The sample row of the README has ceiling_damage_moisture = 0 and is valid.
\<close>

theorem moisture_zero_counterexample:
  "ceiling_damage_moisture sampleRow < 5 / 100
   \<and> validateCSVRow sampleRow 2 = []
   \<and> valid (parseCSVContent [sampleRow]) = [sampleRow]
   \<and> invalid (parseCSVContent [sampleRow]) = []"
proof -
  have "ceiling_damage_moisture sampleRow < 5 / 100" by (simp add: sampleRow_def)
  moreover have v: "validateCSVRow sampleRow 2 = []" by code_simp
  moreover from v have p: "rowPasses sampleRow"
    by (simp add: validateCSVRow_Nil_rowPasses)
  moreover have "valid (parseCSVContent [sampleRow]) = filter rowPasses [sampleRow]"
    unfolding parseCSVContent_def by (rule valid_parseRows)
  moreover have "invalid (parseCSVContent [sampleRow]) = filter (\<lambda>r. \<not> rowPasses r) [sampleRow]"
    unfolding parseCSVContent_def by (rule invalid_parseRows)
  ultimately show ?thesis
    by simp
qed

text \<open>
  Claim C9, amended. For every row, whenever one of the five moisture fields is not
  zero and lies outside [0.05, 0.95], the validator reports an error with the row
  number, the field's name, the message and the offending value, and the row is
  excluded from the valid rows of any batch (and listed among the invalid rows of a
  batch that contains it).
\<close>

theorem moisture_out_of_range_reported:
  assumes "(f, sel) \<in> set moistureFields" and "sel r \<noteq> 0"
    and "sel r < 5 / 100 \<or> sel r > 95 / 100"
  shows "\<lparr>row = n, field = f, message = f @ '' must be between 0.05-0.95 (5%-95%)'',
           value = Some (sel r)\<rparr> \<in> set (validateCSVRow r n)
         \<and> r \<notin> set (valid (parseCSVContent rows))
         \<and> (r \<in> set rows \<longrightarrow> r \<in> set (invalid (parseCSVContent rows)))"
proof -
  let ?e = "\<lparr>row = n, field = f, message = f @ '' must be between 0.05-0.95 (5%-95%)'',
             value = Some (sel r)\<rparr>"
  have mem: "?e \<in> set (validateCSVRow r n)"
    using moisture_error_member [OF assms] by (simp add: validateCSVRow_def)
  then have "validateCSVRow r n \<noteq> []" by auto
  then have "\<not> rowPasses r" by (simp add: validateCSVRow_Nil_rowPasses)
  then have "r \<notin> set (valid (parseCSVContent rows))"
    and "r \<in> set rows \<longrightarrow> r \<in> set (invalid (parseCSVContent rows))"
    by (simp_all add: parseCSVContent_def valid_parseRows invalid_parseRows)
  with mem show ?thesis by blast
qed

theorem moisture_out_of_range_reported_witness:
  "(''floor_materials_moisture'', floor_materials_moisture) \<in> set moistureFields
   \<and> floor_materials_moisture wetRow = 99 / 100
   \<and> \<lparr>row = 3, field = ''floor_materials_moisture'',
        message = ''floor_materials_moisture must be between 0.05-0.95 (5%-95%)'',
        value = Some (99 / 100)\<rparr> \<in> set (validateCSVRow wetRow 3)
   \<and> wetRow \<notin> set (valid (parseCSVContent [sampleRow, wetRow]))
   \<and> wetRow \<in> set (invalid (parseCSVContent [sampleRow, wetRow]))"
proof -
  have h1: "(''floor_materials_moisture'', floor_materials_moisture) \<in> set moistureFields"
    by (simp add: moistureFields_def)
  have v: "floor_materials_moisture wetRow = 99 / 100"
    by (simp add: wetRow_def)
  have h2: "floor_materials_moisture wetRow \<noteq> 0"
    and h3: "floor_materials_moisture wetRow < 5 / 100 \<or> floor_materials_moisture wetRow > 95 / 100"
    by (simp_all add: v)
  from moisture_out_of_range_reported [OF h1 h2 h3, of 3 "[sampleRow, wetRow]"] h1 v
  show ?thesis by simp
qed

section \<open>Sign of the costs and counts\<close>

lemma counts_nonneg:
  assumes "50 \<le> CSVRowData.room_sf r"
  shows "0 \<le> largeUnits r" "0 \<le> standardUnits r" "0 \<le> airMovers r" "0 \<le> heaters' r"
    "0 \<le> airScrubbers r" "0 \<le> injectionSystems r" "0 \<le> generatorRequired r"
    "0 \<le> totalUnits r"
proof -
  have pos: "0 < CSVRowData.room_sf r" using assms by simp
  show l: "0 \<le> largeUnits r" using pos by (simp add: largeUnits_def)
  show s: "0 \<le> standardUnits r" using pos by (simp add: standardUnits_def)
  show a: "0 \<le> airMovers r" using pos by (simp add: airMovers_def)
  show h: "0 \<le> heaters' r" by (simp add: heaters'_def)
  show sc: "0 \<le> airScrubbers r" by (simp add: airScrubbers_def)
  show i: "0 \<le> injectionSystems r" by (simp add: injectionSystems_def)
  show "0 \<le> generatorRequired r" by (simp add: generatorRequired_def)
  show "0 \<le> totalUnits r" using l s a h sc i by (simp add: totalUnits_def)
qed

lemma labor_nonneg:
  assumes "50 \<le> CSVRowData.room_sf r" and "1 \<le> water_class r" and "ratesNonNegative c"
  shows "0 \<le> totalLabor c r"
proof -
  have "0 \<le> techHours r"
    using counts_nonneg(8) [OF assms(1)] by (simp add: techHours_def)
  then have t: "0 \<le> techCost c r"
    using assms(3) by (simp add: techCost_def ratesNonNegative_def)
  have "0 \<le> supervisorHours r"
    using assms(2) by (simp add: supervisorHours_def)
  then have s: "0 \<le> supervisorCost c r"
    using assms(3) by (simp add: supervisorCost_def ratesNonNegative_def)
  have "0 \<le> specialistHours r"
    by (simp add: specialistHours_def)
  then have sp: "0 \<le> specialistCost c r"
    using assms(3) by (simp add: specialistCost_def ratesNonNegative_def)
  have pm: "0 \<le> projectManagement c"
    using assms(3) by (simp add: projectManagement_def ratesNonNegative_def)
  from t s sp pm show ?thesis by (simp add: totalLabor_def)
qed

lemma equipment_nonneg:
  assumes "50 \<le> CSVRowData.room_sf r" and "1 \<le> water_class r" and "ratesNonNegative c"
  shows "0 \<le> totalEquipment c r"
proof -
  note n = counts_nonneg [OF assms(1)]
  have "0 \<le> dailyEquipmentCost c r"
    unfolding dailyEquipmentCost_def using n assms(3)
    by (intro add_nonneg_nonneg mult_nonneg_nonneg) (simp_all add: ratesNonNegative_def)
  moreover have "0 \<le> totalDays r"
    using assms(2) by (simp add: totalDays_def)
  ultimately show ?thesis by (simp add: totalEquipment_def)
qed

lemma materials_nonneg:
  assumes "0 \<le> floor_damage_sf r" and "0 \<le> wall_damage_sf r"
  shows "0 \<le> floorTreatment r" "0 \<le> wallTreatment r" "0 \<le> totalMaterials r"
  using assms
  by (simp_all add: totalMaterials_def floorTreatment_def wallTreatment_def
      ceilingTreatment_def disposal'_def antimicrobial'_def)




section \<open>Properties of the project summary\<close>

lemma foldl_add_sum_list:
  "foldl (\<lambda>sum x. sum + f x) a xs = a + sum_list (map f xs)"
  for a :: "'b::comm_monoid_add"
  by (induction xs arbitrary: a) (simp_all add: add.assoc)

lemma reduce_sum_sum_list: "reduce_sum f xs = sum_list (map f xs)"
  for f :: "'a \<Rightarrow> 'b::comm_monoid_add"
  by (simp add: reduce_sum_def foldl_add_sum_list)

lemma reduce_sum_mset:
  fixes f :: "'a \<Rightarrow> 'b::comm_monoid_add"
  assumes "mset xs = mset ys"
  shows "reduce_sum f xs = reduce_sum f ys"
proof -
  have "sum_list (map f xs) = sum_mset (image_mset f (mset xs))"
    by (simp flip: sum_mset_sum_list)
  also have "\<dots> = sum_mset (image_mset f (mset ys))"
    by (simp add: assms)
  also have "\<dots> = sum_list (map f ys)"
    by (simp flip: sum_mset_sum_list)
  finally show ?thesis
    by (simp add: reduce_sum_sum_list)
qed

lemma Math_max_mset:
  assumes "mset xs = mset ys"
  shows "Math_max (map f xs) = Math_max (map f ys)"
proof -
  have "set xs = set ys" using assms by (rule mset_eq_setD)
  then show ?thesis by (simp add: Math_max_def)
qed





section \<open>Properties of the handler\<close>

lemma parseCSVContent_fields:
  "valid (parseCSVContent rows) = filter rowPasses rows"
  "invalid (parseCSVContent rows) = filter (\<lambda>r. \<not> rowPasses r) rows"
  "ParseResult.errors (parseCSVContent rows) =
     concat (map (\<lambda>(k, r). validateCSVRow r (k + 2)) (enumerate 0 rows))"
proof -
  show "valid (parseCSVContent rows) = filter rowPasses rows"
    unfolding parseCSVContent_def by (rule valid_parseRows)
  show "invalid (parseCSVContent rows) = filter (\<lambda>r. \<not> rowPasses r) rows"
    unfolding parseCSVContent_def by (rule invalid_parseRows)
  have "enumerate 1 rows = map (\<lambda>(k, r). (Suc k, r)) (enumerate 0 rows)"
    by (simp add: enumerate_eq_zip map_Suc_upt [symmetric] zip_map1 del: upt_Suc)
  then show "ParseResult.errors (parseCSVContent rows) =
     concat (map (\<lambda>(k, r). validateCSVRow r (k + 2)) (enumerate 0 rows))"
    unfolding parseCSVContent_def errors_parseRows
    by (simp add: case_prod_unfold comp_def)
qed




end
